theory Spec2Isabelle
  imports Main "HOL-Library.Multiset" "HOL-Library.Sublist"
begin

section \<open>Tagged values\<close>

text \<open>
  A JavaScript object is read through its own properties: a partial map from property
  names to values. A property value is either a string or some other value; the type
  parameter stands for everything that is not a string, since the library computes with
  nothing but the discriminator.
\<close>

datatype 'a jsval = JString string | JValue 'a

type_synonym 'a jsobject = "string \<rightharpoonup> 'a jsval"

text \<open>
  \<^verbatim>\<open>export type DiscriminatedUnion = { readonly type: string }\<close>: an object whose
  property \<open>type\<close> is present and holds a string. Everything else about the object is
  free, as for \<^verbatim>\<open>Union extends DiscriminatedUnion\<close>.
\<close>

typedef 'a DiscriminatedUnion =
  "{obj :: 'a jsobject. \<exists>s. obj ''type'' = Some (JString s)}"
  by (rule exI [of _ "[''type'' \<mapsto> JString []]"]) simp

setup_lifting type_definition_DiscriminatedUnion

text \<open>The own properties of a tagged value (the discriminator among them).\<close>

lift_definition props :: "'a DiscriminatedUnion \<Rightarrow> 'a jsobject"
  is "\<lambda>obj. obj" .

text \<open>
  The property read \<^verbatim>\<open>value.type\<close>. The last two cases of the match are never taken:
  the type of tagged values excludes them.
\<close>

lift_definition type :: "'a DiscriminatedUnion \<Rightarrow> string"
  is "\<lambda>obj. case obj ''type'' of Some (JString s) \<Rightarrow> s | _ \<Rightarrow> []" .

section \<open>Errors\<close>

text \<open>
  \<open>Error msg\<close> is \<^verbatim>\<open>throw new Error(msg)\<close>, the only throw statement of the source.
  \<open>TypeError msg\<close> is the exception the runtime raises when a value that is not a
  function is called, or when a built-in function that needs an object to work on is
  called without one. The wording of such a message is the engine's; the model keeps
  the expression or the built-in that failed.
\<close>

datatype error = Error string | TypeError string

section \<open>Partition\<close>

text \<open>
  \<^verbatim>\<open>const result = {}\<close> is an ordinary object: besides its own properties, a read
  \<^verbatim>\<open>result[key]\<close> finds the properties every object inherits from the standard
  \<^verbatim>\<open>Object.prototype\<close>. These are their names, the legacy accessors of the
  language standard last; each holds a function, and \<^verbatim>\<open>__proto__\<close> reads as the
  prototype object itself. All of them are truthy, and none of them has a \<^verbatim>\<open>push\<close>
  method.
\<close>

definition Object_prototype :: "string list" where
  "Object_prototype =
     [''constructor'', ''hasOwnProperty'', ''isPrototypeOf'', ''propertyIsEnumerable'',
      ''toLocaleString'', ''toString'', ''valueOf'', ''__proto__'',
      ''__defineGetter__'', ''__defineSetter__'', ''__lookupGetter__'', ''__lookupSetter__'']"

text \<open>
  The own properties of \<^verbatim>\<open>result\<close>: every one of them is an array the loop created.
\<close>

type_synonym 'a groups = "string \<rightharpoonup> 'a DiscriminatedUnion list"

text \<open>
  The property read \<^verbatim>\<open>result[key]\<close>: an own array, else a property inherited from
  \<^verbatim>\<open>Object.prototype\<close>, else \<^verbatim>\<open>undefined\<close>.
\<close>

datatype 'a read = OwnArray "'a DiscriminatedUnion list" | Inherited | Undefined

definition read :: "'a groups \<Rightarrow> string \<Rightarrow> 'a read" where
  "read result key =
     (case result key of
        Some array \<Rightarrow> OwnArray array
      | None \<Rightarrow> if key \<in> set Object_prototype then Inherited else Undefined)"

text \<open>
  One iteration of the loop, its two statements in order. \<^verbatim>\<open>!result[key]\<close> holds for
  \<^verbatim>\<open>undefined\<close> only: an array is truthy even when empty, and so is every inherited
  property. \<^verbatim>\<open>result[key].push(value)\<close> appends to an own array; an inherited property
  has no \<^verbatim>\<open>push\<close>, so the call raises.
\<close>

definition partition_step ::
  "'a groups \<Rightarrow> 'a DiscriminatedUnion \<Rightarrow> error + 'a groups"
where
  "partition_step result value =
     (let key = type value;
          result1 = (case read result key of Undefined \<Rightarrow> result(key \<mapsto> []) | _ \<Rightarrow> result)
      in case read result1 key of
           OwnArray array \<Rightarrow> Inr (result1(key \<mapsto> array @ [value]))
         | _ \<Rightarrow> Inl (TypeError ''result[key].push is not a function''))"

fun partition_loop ::
  "'a groups \<Rightarrow> 'a DiscriminatedUnion list \<Rightarrow> error + 'a groups"
where
  "partition_loop result [] = Inr result"
| "partition_loop result (value # values) =
     (case partition_step result value of
        Inl e \<Rightarrow> Inl e
      | Inr result' \<Rightarrow> partition_loop result' values)"

definition createPartitionFunction ::
  "'a DiscriminatedUnion list \<Rightarrow> error + 'a groups"
where
  "createPartitionFunction values = partition_loop Map.empty values"

section \<open>Handler maps\<close>

text \<open>
  A handler map is an object the caller writes, in every use the repository shows an
  object literal: an ordinary object, as \<^verbatim>\<open>result\<close> above. Its own properties are the
  caller's handlers, pure functions of the value; \<open>handlers key\<close> is the own property
  under \<open>key\<close>. The map has an entry for a discriminator when it has an own property
  under it.
\<close>

type_synonym ('a, 'r) handlers = "string \<rightharpoonup> ('a DiscriminatedUnion \<Rightarrow> 'r)"

text \<open>
  The property read \<^verbatim>\<open>handlers[key]\<close>, the one way in which the dispatch operations
  use a handler map: the own property, else the member of \<^verbatim>\<open>Object.prototype\<close> of that
  name, else \<^verbatim>\<open>undefined\<close>. The source does not ask whether the property is the map's
  own.
\<close>

datatype ('a, 'r) found =
  OwnFunction "'a DiscriminatedUnion \<Rightarrow> 'r" | InheritedMember string | NotFound

definition readHandler :: "('a, 'r) handlers \<Rightarrow> string \<Rightarrow> ('a, 'r) found" where
  "readHandler handlers key =
     (case handlers key of
        Some h \<Rightarrow> OwnFunction h
      | None \<Rightarrow> if key \<in> set Object_prototype then InheritedMember key else NotFound)"

text \<open>
  The tests \<^verbatim>\<open>if (handler)\<close> and \<^verbatim>\<open>if (!handler)\<close>: a function is truthy, and so is
  every member of \<^verbatim>\<open>Object.prototype\<close>; \<^verbatim>\<open>undefined\<close> is not.
\<close>

fun truthy :: "('a, 'r) found \<Rightarrow> bool" where
  "truthy (OwnFunction h) = True"
| "truthy (InheritedMember name) = True"
| "truthy NotFound = False"

text \<open>
  What a dispatch operation hands back: the result of a handler of the caller; or, from
  an inherited built-in, the very value that was passed in, or a string.
\<close>

datatype ('a, 'r) returned = Result 'r | Argument "'a DiscriminatedUnion" | Text string

text \<open>
  The call \<^verbatim>\<open>handler(value)\<close>. The function is called on its own, so a built-in
  receives \<^verbatim>\<open>undefined\<close> for \<^verbatim>\<open>this\<close>. Of the members of \<^verbatim>\<open>Object.prototype\<close>,
  \<^verbatim>\<open>constructor\<close> is \<^verbatim>\<open>Object\<close>, which returns an object passed to it;
  \<^verbatim>\<open>toString\<close> answers \<^verbatim>\<open>[object Undefined]\<close> for \<^verbatim>\<open>this\<close> undefined;
  \<^verbatim>\<open>__proto__\<close> reads as the prototype object, which is no function; every other one
  needs \<^verbatim>\<open>this\<close> as an object when it is passed an object, and raises on
  \<^verbatim>\<open>undefined\<close>.
\<close>

fun invoke :: "('a, 'r) found \<Rightarrow> 'a DiscriminatedUnion \<Rightarrow> error + ('a, 'r) returned" where
  "invoke (OwnFunction h) value = Inr (Result (h value))"
| "invoke (InheritedMember name) value =
     (if name = ''constructor'' then Inr (Argument value)
      else if name = ''toString'' then Inr (Text ''[object Undefined]'')
      else if name = ''__proto__'' then Inl (TypeError ''handler is not a function'')
      else Inl (TypeError (''Object.prototype.'' @ name @ '' called on undefined'')))"
| "invoke NotFound value = Inl (TypeError ''handler is not a function'')"

section \<open>Dispatch and transforms\<close>

definition createMapFunction ::
  "'a DiscriminatedUnion \<Rightarrow> ('a, 'a DiscriminatedUnion) handlers
     \<Rightarrow> error + ('a, 'a DiscriminatedUnion) returned"
where
  "createMapFunction value handlers =
     (let key = type value; handler = readHandler handlers key in
      if truthy handler then invoke handler value else Inr (Result value))"

definition createTransformFunction ::
  "'a DiscriminatedUnion \<Rightarrow> ('a, 'a DiscriminatedUnion) handlers
     \<Rightarrow> error + ('a, 'a DiscriminatedUnion) returned"
where
  "createTransformFunction value handlers =
     (let key = type value; handler = readHandler handlers key in
      if truthy handler then invoke handler value else Inr (Result value))"

definition createWhenFunction ::
  "'a DiscriminatedUnion \<Rightarrow> ('a, 'r) handlers \<Rightarrow> error + ('a, 'r) returned"
where
  "createWhenFunction value handlers =
     (let key = type value; handler = readHandler handlers key in
      if \<not> truthy handler
      then Inl (Error (''No handler found for type: '' @ type value))
      else invoke handler value)"

definition createMatchFunction ::
  "'a DiscriminatedUnion \<Rightarrow> ('a, 'r) handlers \<Rightarrow> error + ('a, 'r) returned"
where
  "createMatchFunction value handlers =
     (let key = type value; handler = readHandler handlers key in
      if \<not> truthy handler
      then Inl (Error (''No handler found for type: '' @ type value))
      else invoke handler value)"

definition createFoldFunction ::
  "'a DiscriminatedUnion \<Rightarrow> ('a, 'r) handlers \<Rightarrow> ('a DiscriminatedUnion \<Rightarrow> 'r)
     \<Rightarrow> error + ('a, 'r) returned"
where
  "createFoldFunction value handlers defaultHandler =
     (let key = type value; handler = readHandler handlers key in
      if truthy handler then invoke handler value
      else Inr (Result (defaultHandler value)))"

definition createGetTypeFunction :: "'a DiscriminatedUnion \<Rightarrow> string" where
  "createGetTypeFunction value = type value"

section \<open>Filtering\<close>

text \<open>The second argument of \<^verbatim>\<open>filter\<close>, of type \<^verbatim>\<open>K | readonly K[]\<close>.\<close>

datatype types = Single string | Array "string list"

definition createFilterFunction ::
  "'a DiscriminatedUnion list \<Rightarrow> types \<Rightarrow> 'a DiscriminatedUnion list"
where
  "createFilterFunction values types =
     (let allowedTypes = set (case types of Array ts \<Rightarrow> ts | Single t \<Rightarrow> [t]) in
      filter (\<lambda>value. type value \<in> allowedTypes) values)"

text \<open>
  The predicate map of \<^verbatim>\<open>filterBy\<close> is read twice: \<^verbatim>\<open>Object.keys(predicates)\<close>, its
  own property names, and \<^verbatim>\<open>predicates[value.type]\<close> for a name among them.
\<close>

definition createFilterByFunction ::
  "'a DiscriminatedUnion list \<Rightarrow> ('a, bool) handlers \<Rightarrow> 'a DiscriminatedUnion list"
where
  "createFilterByFunction values predicates =
     (let allowedTypes = dom predicates in
      filter
        (\<lambda>value.
           if type value \<in> allowedTypes then
             (case predicates (type value) of
                Some predicate \<Rightarrow> predicate value
              | None \<Rightarrow> False)
           else False)
        values)"

section \<open>Constructor factory\<close>

text \<open>
  \<^verbatim>\<open>({ ...data, type })\<close>: the object literal starts empty, copies the own properties
  of \<open>data\<close>, then defines \<open>type\<close>. The result has a string under \<open>type\<close>, which is
  what makes it a tagged value.
\<close>

lift_definition createConstructorFunction ::
  "string \<Rightarrow> 'a jsobject \<Rightarrow> 'a DiscriminatedUnion"
  is "\<lambda>type data. (Map.empty ++ data)(''type'' \<mapsto> JString type)"
  by simp

section \<open>Boolean tests by derived name\<close>
















section \<open>Notions of the specification\<close>

text \<open>
  The selector of \<^verbatim>\<open>filter\<close> in the specification's words: one discriminator value, or
  a set of them.
\<close>

definition selector :: "types \<Rightarrow> string set" where
  "selector types = (case types of Single t \<Rightarrow> {t} | Array ts \<Rightarrow> set ts)"

text \<open>The discriminators of a sequence in the order in which they are first seen.\<close>

fun firstSeen :: "string list \<Rightarrow> string list" where
  "firstSeen [] = []"
| "firstSeen (k # ks) = k # removeAll k (firstSeen ks)"

section \<open>Facts about tagged values\<close>

lemma type_props: "props v ''type'' = Some (JString (type v))"
  by transfer (auto split: option.splits jsval.splits)

lemma type_constructed: "type (createConstructorFunction t p) = t"
  by transfer simp

lemma props_constructed:
  "props (createConstructorFunction t p) = p(''type'' \<mapsto> JString t)"
  by transfer simp

lemmas tagged_eval = type.rep_eq props.rep_eq createConstructorFunction.rep_eq

section \<open>Facts about the cache of boolean tests\<close>





section \<open>Facts about partition\<close>

lemma partition_step_ok:
  assumes "type v \<notin> set Object_prototype"
  shows "partition_step result v =
           Inr (result(type v \<mapsto> (case result (type v) of Some a \<Rightarrow> a | None \<Rightarrow> []) @ [v]))"
  using assms by (simp add: partition_step_def read_def Let_def split: option.splits)

lemma partition_step_raises:
  assumes "type v \<in> set Object_prototype" and "result (type v) = None"
  shows "partition_step result v = Inl (TypeError ''result[key].push is not a function'')"
  using assms by (simp add: partition_step_def read_def Let_def)

lemma partition_loop_ok:
  assumes "\<forall>v \<in> set vs. type v \<notin> set Object_prototype"
  shows "partition_loop result vs =
           Inr (\<lambda>k. if k \<in> type ` set vs
                     then Some ((case result k of Some a \<Rightarrow> a | None \<Rightarrow> [])
                                @ filter (\<lambda>v. type v = k) vs)
                     else result k)"
  using assms
proof (induction vs arbitrary: result)
  case Nil
  then show ?case by simp
next
  case (Cons v vs)
  from Cons.prems have v: "type v \<notin> set Object_prototype"
    and vs: "\<forall>v \<in> set vs. type v \<notin> set Object_prototype" by simp_all
  show ?case
    unfolding partition_loop.simps partition_step_ok [OF v] sum.case Cons.IH [OF vs]
    by (auto simp: fun_eq_iff filter_empty_conv empty_filter_conv image_iff
        split: option.splits)
qed

text \<open>
  Where no discriminator of the input is a name inherited from \<^verbatim>\<open>Object.prototype\<close>,
  the result maps each discriminator seen to the values that carry it, in input order,
  and has no other key.
\<close>

lemma partition_ok:
  assumes "\<forall>v \<in> set vs. type v \<notin> set Object_prototype"
  shows "createPartitionFunction vs =
           Inr (\<lambda>k. if k \<in> type ` set vs then Some (filter (\<lambda>v. type v = k) vs) else None)"
  using partition_loop_ok [OF assms, of Map.empty]
  by (simp add: createPartitionFunction_def cong: if_cong)

lemma partition_loop_raises:
  assumes "\<exists>v \<in> set vs. type v \<in> set Object_prototype"
    and "dom result \<inter> set Object_prototype = {}"
  shows "partition_loop result vs = Inl (TypeError ''result[key].push is not a function'')"
  using assms
proof (induction vs arbitrary: result)
  case Nil
  then show ?case by simp
next
  case (Cons v vs)
  show ?case
  proof (cases "type v \<in> set Object_prototype")
    case True
    with Cons.prems(2) have "result (type v) = None" by auto
    with True have "partition_step result v = Inl (TypeError ''result[key].push is not a function'')"
      by (rule partition_step_raises)
    then show ?thesis by simp
  next
    case False
    with Cons.prems(1) have ex: "\<exists>v \<in> set vs. type v \<in> set Object_prototype" by auto
    let ?r = "result(type v \<mapsto> (case result (type v) of Some a \<Rightarrow> a | None \<Rightarrow> []) @ [v])"
    from False Cons.prems(2) have "dom ?r \<inter> set Object_prototype = {}" by auto
    then have ih: "partition_loop ?r vs = Inl (TypeError ''result[key].push is not a function'')"
      by (rule Cons.IH [OF ex])
    have step: "partition_step result v = Inr ?r"
      by (rule partition_step_ok [OF False])
    show ?thesis
      unfolding partition_loop.simps step sum.case by (rule ih)
  qed
qed

text \<open>Partition raises exactly on the inputs that hold such a discriminator.\<close>

lemma partition_raises_iff:
  "createPartitionFunction vs = Inl (TypeError ''result[key].push is not a function'')
     \<longleftrightarrow> (\<exists>v \<in> set vs. type v \<in> set Object_prototype)"
proof (cases "\<exists>v \<in> set vs. type v \<in> set Object_prototype")
  case True
  then show ?thesis
    using partition_loop_raises [of vs Map.empty] by (simp add: createPartitionFunction_def)
next
  case False
  then have "\<forall>v \<in> set vs. type v \<notin> set Object_prototype" by simp
  from partition_ok [OF this] False show ?thesis by simp
qed

lemma set_firstSeen: "set (firstSeen ks) = set ks"
  by (induction ks) auto

lemma distinct_firstSeen: "distinct (firstSeen ks)"
  by (induction ks) (auto simp: distinct_removeAll)

lemma mset_concat_groups:
  assumes "distinct ks"
  shows "mset (concat (map (\<lambda>k. filter (\<lambda>v. f v = k) vs) ks))
           = filter_mset (\<lambda>v. f v \<in> set ks) (mset vs)"
  using assms
proof (induction ks)
  case Nil
  then show ?case by simp
next
  case (Cons k ks)
  then have "k \<notin> set ks" and "distinct ks" by simp_all
  with Cons.IH show ?case
    by (auto intro!: multiset_eqI simp: count_mset)
qed

text \<open>
  The groups, taken in first-seen order of their discriminators, are a permutation of
  the input, and their lengths add up to its length.
\<close>

lemma groups_permutation:
  "mset (concat (map (\<lambda>k. filter (\<lambda>v. type v = k) vs) (firstSeen (map type vs)))) = mset vs"
proof -
  have "filter_mset (\<lambda>v. type v \<in> set (firstSeen (map type vs))) (mset vs) = mset vs"
    by (rule filter_mset_eq_conv [THEN iffD2]) (auto simp: set_firstSeen)
  with mset_concat_groups [OF distinct_firstSeen, of type vs "map type vs"] show ?thesis
    by simp
qed

lemma groups_length:
  "(\<Sum>k\<leftarrow>firstSeen (map type vs). length (filter (\<lambda>v. type v = k) vs)) = length vs"
proof -
  have "length (concat (map (\<lambda>k. filter (\<lambda>v. type v = k) vs) (firstSeen (map type vs))))
          = length vs"
    using groups_permutation [of vs] by (metis size_mset)
  then show ?thesis by (simp add: length_concat comp_def)
qed

text \<open>The third scenario of the specification: two groups, each in input order.\<close>

lemma partition_scenario:
  "\<exists>m. createPartitionFunction
          [createConstructorFunction ''a'' [''n'' \<mapsto> JValue (10::nat)],
           createConstructorFunction ''b'' Map.empty,
           createConstructorFunction ''a'' [''n'' \<mapsto> JValue 20]] = Inr m
       \<and> m ''a'' = Some [createConstructorFunction ''a'' [''n'' \<mapsto> JValue 10],
                          createConstructorFunction ''a'' [''n'' \<mapsto> JValue 20]]
       \<and> m ''b'' = Some [createConstructorFunction ''b'' Map.empty]
       \<and> dom m = {''a'', ''b''}"
  by (auto simp add: createPartitionFunction_def partition_step_def read_def
      Object_prototype_def type_constructed Let_def dom_def)

section \<open>Facts about dispatch\<close>

lemma readHandler_own:
  "handlers key = Some h \<Longrightarrow> readHandler handlers key = OwnFunction h"
  by (simp add: readHandler_def)

lemma readHandler_inherited:
  "handlers key = None \<Longrightarrow> key \<in> set Object_prototype
     \<Longrightarrow> readHandler handlers key = InheritedMember key"
  by (simp add: readHandler_def)

lemma readHandler_none:
  "handlers key = None \<Longrightarrow> key \<notin> set Object_prototype
     \<Longrightarrow> readHandler handlers key = NotFound"
  by (simp add: readHandler_def)

text \<open>
  \<open>when\<close> raises the error that names the discriminator exactly when the map has no
  entry for it and it is no inherited name; \<open>match\<close> is the same function.
\<close>

lemma when_raises_iff:
  "createWhenFunction value handlers = Inl (Error (''No handler found for type: '' @ type value))
     \<longleftrightarrow> handlers (type value) = None \<and> type value \<notin> set Object_prototype"
proof (cases "handlers (type value)")
  case None
  then show ?thesis
    by (cases "type value \<in> set Object_prototype")
      (simp_all add: createWhenFunction_def readHandler_inherited readHandler_none)
next
  case (Some h)
  then show ?thesis by (simp add: createWhenFunction_def readHandler_own)
qed

lemma match_is_when: "createMatchFunction value handlers = createWhenFunction value handlers"
  by (simp add: createMatchFunction_def createWhenFunction_def)

text \<open>
  Where the map has an entry, \<open>map\<close> and \<open>fold\<close> apply it; where it has none and the
  discriminator is no inherited name, \<open>map\<close> returns the value and \<open>fold\<close> applies
  the default handler.
\<close>

lemma map_entry:
  "handlers (type value) = Some h \<Longrightarrow> createMapFunction value handlers = Inr (Result (h value))"
  by (simp add: createMapFunction_def readHandler_own)

lemma map_unhandled:
  "handlers (type value) = None \<Longrightarrow> type value \<notin> set Object_prototype
     \<Longrightarrow> createMapFunction value handlers = Inr (Result value)"
  by (simp add: createMapFunction_def readHandler_none)

lemma transform_is_map:
  "createTransformFunction value handlers = createMapFunction value handlers"
  by (simp add: createTransformFunction_def createMapFunction_def)

lemma fold_entry:
  "handlers (type value) = Some h
     \<Longrightarrow> createFoldFunction value handlers defaultHandler = Inr (Result (h value))"
  by (simp add: createFoldFunction_def readHandler_own)

lemma fold_default:
  "handlers (type value) = None \<Longrightarrow> type value \<notin> set Object_prototype
     \<Longrightarrow> createFoldFunction value handlers defaultHandler
           = Inr (Result (defaultHandler value))"
  by (simp add: createFoldFunction_def readHandler_none)

text \<open>
  The second and the fourth scenario of the specification: an error value against a
  handler map with no entry for \<open>error\<close>, folded with a default and dispatched
  exhaustively.
\<close>

lemma fold_scenario_default:
  "createFoldFunction
     (createConstructorFunction ''error'' [''message'' \<mapsto> JString ''x''])
     [''success'' \<mapsto> (\<lambda>s. props s ''data'')]
     (\<lambda>s. Some (JString ''fallback''))
   = Inr (Result (Some (JString ''fallback'' :: nat jsval)))"
  by (simp add: createFoldFunction_def readHandler_def Object_prototype_def type_constructed)

lemma when_scenario_missing:
  "createWhenFunction
     (createConstructorFunction ''error'' [''message'' \<mapsto> JString ''x''])
     [''success'' \<mapsto> (\<lambda>s. props s ''data'')]
   = (Inl (Error ''No handler found for type: error'')
        :: error + (nat, nat jsval option) returned)"
  by (simp add: createWhenFunction_def readHandler_def Object_prototype_def type_constructed)

section \<open>C1: exhaustive dispatch applies the entry\<close>

text \<open>
  C1. For every tagged value and every handler map with an entry for the value's
  discriminator, \<open>when\<close> returns the result of applying that entry to the value.
\<close>

theorem when_applies_entry:
  assumes "handlers (type value) = Some handler"
  shows "createWhenFunction value handlers = Inr (Result (handler value))"
  using assms by (simp add: createWhenFunction_def readHandler_own)

text \<open>
  Four handlers as in the first scenario of the specification, a loading value with
  progress 50, and the handler for \<open>loading\<close> reading the progress.
\<close>

theorem when_applies_entry_witness:
  "createWhenFunction
     (createConstructorFunction ''loading'' [''progress'' \<mapsto> JValue (50::nat)])
     [''idle'' \<mapsto> (\<lambda>s. None), ''loading'' \<mapsto> (\<lambda>s. props s ''progress''),
      ''success'' \<mapsto> (\<lambda>s. None), ''error'' \<mapsto> (\<lambda>s. None)]
   = Inr (Result (Some (JValue 50)))"
  using when_applies_entry [of
      "[''idle'' \<mapsto> (\<lambda>s. None), ''loading'' \<mapsto> (\<lambda>s. props s ''progress''),
        ''success'' \<mapsto> (\<lambda>s. None), ''error'' \<mapsto> (\<lambda>s. None)]"
      "createConstructorFunction ''loading'' [''progress'' \<mapsto> JValue (50::nat)]"
      "\<lambda>s. props s ''progress''"]
  by (simp add: tagged_eval)

section \<open>C2: which operations raise\<close>

text \<open>
  C2. \<open>when\<close> and \<open>match\<close> raise an error naming the unmatched discriminator exactly
  when the handler map has no entry for it, and no other operation ever raises. This
  fails for partition: on a value whose discriminator is \<open>toString\<close>, a name every
  object inherits, the loop finds the inherited function where it expects its own array,
  and the call of \<^verbatim>\<open>push\<close> raises. The dispatch operations read their handler maps in
  the same way (\<open>when_raises_iff\<close>, and the theorems of C4 and C5).
\<close>

theorem partition_raises_on_toString:
  "createPartitionFunction
     [createConstructorFunction ''a'' (Map.empty :: nat jsobject),
      createConstructorFunction ''toString'' Map.empty]
     = Inl (TypeError ''result[key].push is not a function'')"
  by (simp add: createPartitionFunction_def partition_step_def read_def Object_prototype_def
      type_constructed Let_def)

section \<open>C3: boolean tests by derived name\<close>



section \<open>C4: map and the discriminator\<close>

text \<open>
  C4. For every tagged value and every handler map, the result of \<open>map\<close> has the
  discriminator of the input. This fails for a value whose discriminator is \<open>toString\<close>
  and the handler map without entries: where the value is to come back unchanged
  (\<open>map_unhandled\<close>), the read of the map finds the inherited function, the source calls
  it, and the result is a string, which has no discriminator.
\<close>

theorem map_returns_text_on_toString:
  "createMapFunction
     (createConstructorFunction ''toString'' (Map.empty :: nat jsobject)) Map.empty
     = Inr (Text ''[object Undefined]'')"
  by (simp add: createMapFunction_def readHandler_def Object_prototype_def type_constructed)

section \<open>C5: fold\<close>

text \<open>
  C5. For every tagged value, handler map and default handler, \<open>fold\<close> returns the
  result of the entry for the value's discriminator when the map has one, and the result
  of the default handler otherwise, and never fails for a missing entry. This fails for
  the handler map without entries and a discriminator that is an inherited name: for
  \<open>toString\<close> the source calls the inherited function and returns its string, not the
  0 of the default handler; for \<open>__proto__\<close> it calls the prototype object, which
  raises.
\<close>

theorem fold_skips_default_on_inherited_name:
  "createFoldFunction
     (createConstructorFunction ''toString'' (Map.empty :: nat jsobject)) Map.empty
     (\<lambda>v. 0 :: nat)
     = Inr (Text ''[object Undefined]'')
   \<and> createFoldFunction
     (createConstructorFunction ''__proto__'' (Map.empty :: nat jsobject)) Map.empty
     (\<lambda>v. 0 :: nat)
     = Inl (TypeError ''handler is not a function'')"
  by (simp add: createFoldFunction_def readHandler_def Object_prototype_def type_constructed)

section \<open>C6: filter\<close>

text \<open>
  C6. For every sequence of tagged values, the empty one included, and every selector,
  one discriminator or several, \<open>filter\<close> returns the values whose discriminator is in
  the selector, in their order in the input: a subsequence of the input. A selector
  that matches no element gives the empty sequence. The function has no failing branch.
\<close>

theorem filter_selects_subsequence:
  "createFilterFunction values types = filter (\<lambda>v. type v \<in> selector types) values
   \<and> subseq (createFilterFunction values types) values
   \<and> createFilterFunction [] types = []
   \<and> (selector types \<inter> type ` set values = {} \<longrightarrow> createFilterFunction values types = [])"
proof -
  have eq: "createFilterFunction values types = filter (\<lambda>v. type v \<in> selector types) values"
    by (cases types) (simp_all add: createFilterFunction_def selector_def)
  have none: "createFilterFunction values types = []"
    if "selector types \<inter> type ` set values = {}"
    using that unfolding eq by (auto simp: filter_empty_conv)
  have "createFilterFunction [] types = []"
    by (simp add: createFilterFunction_def)
  with eq none show ?thesis by simp
qed

text \<open>
  A single discriminator keeps the two values that carry it, in order; a set of
  discriminators that none of the values carries keeps nothing.
\<close>

theorem filter_selects_subsequence_witness:
  "createFilterFunction
     [createConstructorFunction ''a'' [''n'' \<mapsto> JValue (10::nat)],
      createConstructorFunction ''b'' Map.empty,
      createConstructorFunction ''a'' [''n'' \<mapsto> JValue 20]] (Single ''a'')
   = [createConstructorFunction ''a'' [''n'' \<mapsto> JValue 10],
      createConstructorFunction ''a'' [''n'' \<mapsto> JValue 20]]
   \<and> createFilterFunction
     [createConstructorFunction ''a'' [''n'' \<mapsto> JValue (10::nat)],
      createConstructorFunction ''b'' Map.empty] (Array [''c'', ''d'']) = []"
proof -
  let ?a1 = "createConstructorFunction ''a'' [''n'' \<mapsto> JValue (10::nat)]"
  let ?b = "createConstructorFunction ''b'' (Map.empty :: nat jsobject)"
  let ?a2 = "createConstructorFunction ''a'' [''n'' \<mapsto> JValue (20::nat)]"
  have "createFilterFunction [?a1, ?b, ?a2] (Single ''a'')
          = filter (\<lambda>v. type v \<in> selector (Single ''a'')) [?a1, ?b, ?a2]"
    using filter_selects_subsequence [of "[?a1, ?b, ?a2]" "Single ''a''"] by blast
  then have one: "createFilterFunction [?a1, ?b, ?a2] (Single ''a'') = [?a1, ?a2]"
    by (simp add: selector_def type_constructed)
  have "selector (Array [''c'', ''d'']) \<inter> type ` set [?a1, ?b] = {}"
    by (simp add: selector_def type_constructed)
  then have "createFilterFunction [?a1, ?b] (Array [''c'', ''d'']) = []"
    using filter_selects_subsequence [of "[?a1, ?b]" "Array [''c'', ''d'']"] by blast
  with one show ?thesis by simp
qed

section \<open>C7: filterBy\<close>

text \<open>
  C7. For every sequence of tagged values and every predicate map, \<open>filterBy\<close> returns
  the values whose discriminator is a key of the map and whose predicate holds of them,
  in their order in the input. A value whose discriminator is no key of the map is left
  out, so the empty predicate map gives the empty sequence for every input.
\<close>

theorem filterBy_selects_subsequence:
  "createFilterByFunction values predicates
     = filter (\<lambda>v. \<exists>predicate. predicates (type v) = Some predicate \<and> predicate v) values
   \<and> subseq (createFilterByFunction values predicates) values
   \<and> createFilterByFunction values Map.empty = []"
proof -
  have "(\<lambda>value. if type value \<in> dom predicates
                  then (case predicates (type value) of
                          Some predicate \<Rightarrow> predicate value
                        | None \<Rightarrow> False)
                  else False)
        = (\<lambda>v. \<exists>predicate. predicates (type v) = Some predicate \<and> predicate v)"
    by (auto simp: fun_eq_iff split: option.splits)
  then have eq: "createFilterByFunction values predicates
     = filter (\<lambda>v. \<exists>predicate. predicates (type v) = Some predicate \<and> predicate v) values"
    by (simp add: createFilterByFunction_def)
  have "createFilterByFunction values Map.empty = []"
    by (simp add: createFilterByFunction_def)
  with eq show ?thesis by simp
qed

section \<open>C8: partition\<close>

text \<open>
  C8. For every sequence of tagged values, partition returns a mapping from the
  discriminators of the input to the values that carry them. The source does so where
  no discriminator is a name that objects inherit (\<open>partition_ok\<close>,
  \<open>groups_permutation\<close>, \<open>groups_length\<close>), and raises on every other input
  (\<open>partition_raises_iff\<close>). For the single value of discriminator \<open>constructor\<close>, the
  claim promises the mapping from \<open>constructor\<close> to that value; the source raises.
\<close>

theorem partition_raises_on_constructor:
  "createPartitionFunction
     [createConstructorFunction ''constructor'' (Map.empty :: nat jsobject)]
     = Inl (TypeError ''result[key].push is not a function'')"
  by (simp add: createPartitionFunction_def partition_step_def read_def Object_prototype_def
      type_constructed Let_def)

section \<open>C9: the constructor attaches the discriminator\<close>

text \<open>
  C9. For every discriminator value \<open>t\<close> and payload \<open>p\<close>, \<open>constructor(t)(p)\<close> is a
  tagged value of discriminator \<open>t\<close>; its fields other than the discriminator are the
  fields of \<open>p\<close> with their values, and it has no field that \<open>p\<close> lacks but the
  discriminator. For a payload without a field \<open>type\<close>, the fields of the result other
  than the discriminator are the payload.
\<close>

theorem constructor_attaches_discriminator:
  "createGetTypeFunction (createConstructorFunction t p) = t
   \<and> props (createConstructorFunction t p) |` (- {''type''}) = p |` (- {''type''})
   \<and> dom (props (createConstructorFunction t p)) = insert ''type'' (dom p)
   \<and> (p ''type'' = None \<longrightarrow> props (createConstructorFunction t p) |` (- {''type''}) = p)"
  by (auto simp: createGetTypeFunction_def type_constructed props_constructed
      restrict_map_def fun_eq_iff)

text \<open>
  The test of the repository that builds an \<open>aType\<close> from the payload with the one
  field \<open>data\<close>.
\<close>

theorem constructor_attaches_discriminator_witness:
  "createGetTypeFunction
     (createConstructorFunction ''aType'' [''data'' \<mapsto> JString ''test'' :: nat jsval])
     = ''aType''
   \<and> props (createConstructorFunction ''aType'' [''data'' \<mapsto> JString ''test'' :: nat jsval])
        |` (- {''type''})
     = [''data'' \<mapsto> JString ''test'']"
  using constructor_attaches_discriminator
    [of "''aType''" "[''data'' \<mapsto> JString ''test'' :: nat jsval]"]
  by simp

section \<open>C10: the payload cannot override the discriminator\<close>

text \<open>
  C10. For every discriminator value \<open>t\<close> and every payload that itself holds a field
  \<open>type\<close>, whatever its value, the result of \<open>constructor(t)\<close> has discriminator \<open>t\<close>:
  the discriminator is written after the fields of the payload are copied.
\<close>

theorem constructor_discriminator_wins:
  "props (createConstructorFunction t (p(''type'' \<mapsto> x))) ''type'' = Some (JString t)
   \<and> createGetTypeFunction (createConstructorFunction t (p(''type'' \<mapsto> x))) = t"
  by (simp add: createGetTypeFunction_def type_constructed props_constructed)

end

